theory Spec2Isabelle
  imports Complex_Main "HOL-Library.Sublist" "HOL-Library.Product_Lexorder"
begin

section \<open>Data model of main_standalone.py\<close>

text \<open>
  The three dataclasses \<open>Offer\<close>, \<open>User\<close> and \<open>Referral\<close> and the row of the
  \<open>posts\<close> table. The dataclasses all have fields \<open>id\<close>, \<open>created_at\<close> and
  \<open>updated_at\<close>; these carry a one-letter prefix here, every other field keeps its name.

  \<^item> \<open>datetime\<close> values are points on a clock, a natural number.
  \<^item> Python \<open>float\<close> fields and SQLite \<open>REAL\<close> columns (commission, gravity,
    reward_amount, total_earnings) hold IEEE 754 doubles. A finite double is a real number,
    so the fields have type \<open>real\<close>; the one place where the program computes with
    them, the sum in \<open>save_referral\<close>, rounds as doubles do (\<open>double_add\<close> below).
    Infinities and NaN are outside the model.
  \<^item> Python \<open>int\<close> is \<open>int\<close>. SQLite stores signed 64-bit integers; every integer
    that reaches a statement (Telegram ids, message ids, counters that grow by one per call,
    the limit of a query) is taken to lie in that range. Beyond it \<open>sqlite3\<close> raises
    OverflowError before the statement runs; that is outside the model.
  \<^item> Python \<open>str\<close> is \<open>string\<close>; text beyond ASCII is the list of its UTF-8 bytes.
\<close>

type_synonym datetime = nat

record Offer =
  o_id :: "int option"
  title :: string
  description :: string
  category :: string
  commission :: real
  gravity :: "real option"
  affiliate_link :: string
  platform :: string
  o_created_at :: datetime
  o_updated_at :: datetime

record User =
  u_id :: "int option"
  user_id :: int
  username :: string
  first_name :: string
  referral_code :: string
  referred_by :: "string option"
  referral_count :: int
  total_earnings :: real
  u_created_at :: datetime
  last_active :: datetime

record Referral =
  r_id :: "int option"
  referrer_code :: string
  referred_user_id :: int
  reward_amount :: real
  status :: string
  r_created_at :: datetime
  r_updated_at :: datetime

record Post =
  p_id :: int
  offer_id :: int
  posted_at :: datetime
  channel_id :: string
  message_id :: int

text \<open>
  The SQLite file behind class \<open>Database\<close>: the four tables that \<open>init_database\<close>
  creates, each a list of rows in rowid order (an INSERT appends).
\<close>

record Database =
  offers :: "Offer list"
  users :: "User list"
  referrals :: "Referral list"
  posts :: "Post list"

definition init_database :: Database where
  "init_database = \<lparr>offers = [], users = [], referrals = [], posts = []\<rparr>"

text \<open>
  Errors of the store. \<open>sqlite3.IntegrityError\<close> is what a violated constraint raises; a
  method that raises leaves before \<open>conn.commit()\<close>, so the store keeps its old state and the
  model returns no new one.
\<close>

datatype error = IntegrityError | IndexError | TypeError

text \<open>
  \<open>id INTEGER PRIMARY KEY AUTOINCREMENT\<close>: a new row takes the largest id used so far plus
  one. The program never deletes a row, so that is the largest id in the table.
\<close>

definition lastrowid :: "int option list \<Rightarrow> int" where
  "lastrowid ids = fold max (map (\<lambda>i. case i of None \<Rightarrow> 0 | Some n \<Rightarrow> n) ids) 0 + 1"

text \<open>
  Every method opens its connection with \<open>sqlite3.connect(self.db_path)\<close> and never issues
  \<open>PRAGMA foreign_keys = ON\<close>. SQLite leaves foreign-key enforcement off on a new
  connection, so the \<open>FOREIGN KEY\<close> clauses of \<open>init_database\<close> are declared but not
  checked. \<open>UNIQUE\<close> constraints are always checked.
\<close>

definition foreign_keys :: bool where
  "foreign_keys = False"

section \<open>Arithmetic on doubles\<close>

text \<open>
  SQLite evaluates \<open>total_earnings + ?\<close> on two doubles: the result is the double
  nearest to the exact sum, a tie going to the even significand. Every finite double is an
  integer multiple of \<open>2 ^ - 1074\<close>, the smallest subnormal, so the sum is rounded in
  that unit: the integer part of the scaled magnitude has \<open>bit_length\<close> bits, all
  but the leading 53 are rounded away. Below \<open>2 ^ - 1021\<close> nothing is dropped, which is
  the fixed spacing of the smallest normal binade and of the subnormals. A sum beyond the
  largest double would overflow to infinity; amounts of that size are outside the model.
\<close>

fun bit_length :: "nat \<Rightarrow> nat" where
  "bit_length n = (if n = 0 then 0 else Suc (bit_length (n div 2)))"

declare bit_length.simps [simp del]

definition round_even :: "real \<Rightarrow> int" where
  "round_even x =
     (let f = \<lfloor>x\<rfloor>; d = x - of_int f
      in if d < 1 / 2 then f else if 1 / 2 < d then f + 1 else if even f then f else f + 1)"

definition emin :: nat where
  "emin = 1074"

definition round_double :: "real \<Rightarrow> real" where
  "round_double r =
     (let K = \<bar>r\<bar> * 2 ^ emin;
          s = bit_length (nat \<lfloor>K\<rfloor>) - 53
      in sgn r * of_int (round_even (K / 2 ^ s)) * 2 ^ s / 2 ^ emin)"

definition double_add :: "real \<Rightarrow> real \<Rightarrow> real" where
  "double_add x y = round_double (x + y)"

section \<open>Database methods\<close>

definition save_offer :: "Database \<Rightarrow> Offer \<Rightarrow> datetime \<Rightarrow> error + (Database \<times> int)" where
  "save_offer db offer ts =
     (let oid = lastrowid (map o_id (offers db));
          row = offer\<lparr>o_id := Some oid, o_created_at := ts, o_updated_at := ts\<rparr>
      in Inr (db\<lparr>offers := offers db @ [row]\<rparr>, oid))"

text \<open>
  \<open>log_post\<close>: one INSERT into \<open>posts\<close>. The table declares
  \<open>FOREIGN KEY (offer_id) REFERENCES offers (id)\<close>.
\<close>

definition log_post :: "Database \<Rightarrow> int \<Rightarrow> string \<Rightarrow> int \<Rightarrow> datetime \<Rightarrow> error + Database" where
  "log_post db oid chan mid ts =
     (if foreign_keys \<and> Some oid \<notin> set (map o_id (offers db)) then Inl IntegrityError
      else Inr (db\<lparr>posts := posts db @
             [\<lparr>p_id = lastrowid (map (Some \<circ> p_id) (posts db)), offer_id = oid,
               posted_at = ts, channel_id = chan, message_id = mid\<rparr>]\<rparr>))"

text \<open>
  \<open>get_user\<close> and \<open>get_user_by_referral_code\<close>: \<open>SELECT ... WHERE\<close> followed by
  \<open>fetchone()\<close>, the first matching row or \<open>None\<close>.
\<close>

definition get_user :: "Database \<Rightarrow> int \<Rightarrow> User option" where
  "get_user db uid = find (\<lambda>r. user_id r = uid) (users db)"

definition get_user_by_referral_code :: "Database \<Rightarrow> string \<Rightarrow> User option" where
  "get_user_by_referral_code db code = find (\<lambda>r. referral_code r = code) (users db)"

text \<open>
  \<open>save_user\<close>: if a row with this \<open>user_id\<close> exists, UPDATE its username, first_name and
  last_active (to \<open>datetime.now()\<close>, here \<open>now\<close>); otherwise INSERT user_id, username,
  first_name, referral_code and referred_by, the other columns taking their defaults
  (\<open>CURRENT_TIMESTAMP\<close> is \<open>ts\<close>). The INSERT violates \<open>UNIQUE\<close> when the user_id or
  the referral_code is already in the table.
\<close>

definition save_user :: "Database \<Rightarrow> User \<Rightarrow> datetime \<Rightarrow> datetime \<Rightarrow> error + (Database \<times> int)" where
  "save_user db user now ts =
     (case find (\<lambda>r. user_id r = user_id user) (users db) of
        Some existing \<Rightarrow>
          Inr (db\<lparr>users := map (\<lambda>r. if user_id r = user_id user
                                     then r\<lparr>username := username user,
                                            first_name := first_name user,
                                            last_active := now\<rparr>
                                     else r) (users db)\<rparr>,
               case u_id existing of None \<Rightarrow> 0 | Some n \<Rightarrow> n)
      | None \<Rightarrow>
          if user_id user \<in> set (map user_id (users db))
             \<or> referral_code user \<in> set (map referral_code (users db))
          then Inl IntegrityError
          else (let n = lastrowid (map u_id (users db))
                in Inr (db\<lparr>users := users db @
                          [\<lparr>u_id = Some n, user_id = user_id user, username = username user,
                            first_name = first_name user, referral_code = referral_code user,
                            referred_by = referred_by user, referral_count = 0,
                            total_earnings = 0, u_created_at = ts, last_active = ts\<rparr>]\<rparr>, n)))"

text \<open>
  \<open>save_referral\<close>: INSERT the referral, then
  \<open>UPDATE users SET referral_count = referral_count + 1, total_earnings = total_earnings + ?
  WHERE referral_code = ?\<close>, then commit. The UPDATE touches every row with that code,
  possibly none; its row count is not read. The sum of the two \<open>REAL\<close> values is a
  double sum. The table declares
  \<open>FOREIGN KEY (referred_user_id) REFERENCES users (user_id)\<close> and nothing for
  \<open>referrer_code\<close>.
\<close>

definition save_referral :: "Database \<Rightarrow> Referral \<Rightarrow> datetime \<Rightarrow> error + (Database \<times> int)" where
  "save_referral db referral ts =
     (if foreign_keys \<and> referred_user_id referral \<notin> set (map user_id (users db))
      then Inl IntegrityError
      else (let n = lastrowid (map r_id (referrals db));
                row = referral\<lparr>r_id := Some n, r_created_at := ts, r_updated_at := ts\<rparr>
            in Inr (db\<lparr>referrals := referrals db @ [row],
                       users := map (\<lambda>u. if referral_code u = referrer_code referral
                                          then u\<lparr>referral_count := referral_count u + 1,
                                                 total_earnings :=
                                                   double_add (total_earnings u)
                                                     (reward_amount referral)\<rparr>
                                          else u) (users db)\<rparr>, n)))"

text \<open>
  \<open>get_leaderboard\<close>:
  \<open>SELECT * FROM users WHERE referral_count > 0
  ORDER BY referral_count DESC, total_earnings DESC LIMIT ?\<close>.
  The sort key is the pair of the two negated columns, compared lexicographically; rows that
  agree on both keep rowid order. SQLite reads a negative LIMIT as no limit.
\<close>

definition get_leaderboard :: "Database \<Rightarrow> int \<Rightarrow> User list" where
  "get_leaderboard db limit =
     (let rows = sort_key (\<lambda>u. (- referral_count u, - total_earnings u))
                   (filter (\<lambda>u. referral_count u > 0) (users db))
      in if limit < 0 then rows else take (nat limit) rows)"

section \<open>User construction and the /start handler\<close>

text \<open>
  \<open>str.upper()\<close> on the output of \<open>secrets.token_hex\<close>, which is made of the ASCII
  characters 0-9 and a-f: a lower-case ASCII letter moves down by 32, every other
  character stays.
\<close>

definition upper :: "string \<Rightarrow> string" where
  "upper s = map (\<lambda>c. if 97 \<le> (of_char c :: nat) \<and> (of_char c :: nat) \<le> 122
                        then char_of ((of_char c :: nat) - 32) else c) s"

text \<open>
  \<open>User(user_id=..., username=..., first_name=..., referred_by=...)\<close> followed by
  \<open>__post_init__\<close>: the timestamps default to \<open>datetime.now()\<close> and the empty
  referral code is replaced by \<open>"LUX" + secrets.token_hex(4).upper()\<close>. The token drawn
  by \<open>secrets\<close> is the argument \<open>tok\<close>.
\<close>

definition new_User :: "int \<Rightarrow> string \<Rightarrow> string \<Rightarrow> string option \<Rightarrow> datetime \<Rightarrow> string \<Rightarrow> User" where
  "new_User uid uname fname refby now tok =
     \<lparr>u_id = None, user_id = uid, username = uname, first_name = fname,
      referral_code = ''LUX'' @ upper tok, referred_by = refby, referral_count = 0,
      total_earnings = 0, u_created_at = now, last_active = now\<rparr>"

text \<open>\<open>x or ""\<close> for an optional string.\<close>

definition or_empty :: "string option \<Rightarrow> string" where
  "or_empty x = (case x of None \<Rightarrow> [] | Some s \<Rightarrow> s)"

text \<open>
  \<open>TrendBot.start_command\<close> up to the point where the welcome text is chosen. The
  arguments are \<open>update.effective_user\<close>'s id, username and first_name, \<open>context.args\<close>,
  the token \<open>secrets\<close> would draw, and the two clocks. The result is the new store, the
  \<open>welcome_type\<close> and the referrer that is notified. The notification itself sits in a
  \<open>try/except: pass\<close> and cannot fail the handler; the reply to the user comes after
  every store write.
\<close>

definition start_command ::
  "Database \<Rightarrow> int \<Rightarrow> string option \<Rightarrow> string option \<Rightarrow> string list \<Rightarrow> string
     \<Rightarrow> datetime \<Rightarrow> datetime \<Rightarrow> error + (Database \<times> string \<times> User option)" where
  "start_command db uid uname fname args tok now ts =
     (let code_arg = (case args of [] \<Rightarrow> None | a # _ \<Rightarrow> Some a) in
      case get_user db uid of
        None \<Rightarrow>
          (case save_user db (new_User uid (or_empty uname) (or_empty fname) code_arg now tok)
                  now ts of
             Inl e \<Rightarrow> Inl e
           | Inr (db1, _) \<Rightarrow>
               (case code_arg of
                  None \<Rightarrow> Inr (db1, ''new'', None)
                | Some code \<Rightarrow>
                    if code = [] then Inr (db1, ''new'', None)
                    else (case get_user_by_referral_code db1 code of
                            None \<Rightarrow> Inr (db1, ''new_with_referral'', None)
                          | Some referrer \<Rightarrow>
                              (case save_referral db1
                                      \<lparr>r_id = None, referrer_code = code,
                                       referred_user_id = uid, reward_amount = 5,
                                       status = ''confirmed'', r_created_at = now,
                                       r_updated_at = now\<rparr> ts of
                                 Inl e \<Rightarrow> Inl e
                               | Inr (db2, _) \<Rightarrow>
                                   Inr (db2, ''new_with_referral'', Some referrer)))))
      | Some existing_user \<Rightarrow>
          (case save_user db (existing_user\<lparr>last_active := now\<rparr>) now ts of
             Inl e \<Rightarrow> Inl e
           | Inr (db1, _) \<Rightarrow> Inr (db1, ''returning'', None)))"

section \<open>ContentGenerator\<close>

text \<open>The emoji of the source, each as its UTF-8 bytes.\<close>

definition emoji_alarm_clock :: string where
  "emoji_alarm_clock = [CHR 0xE2, CHR 0x8F, CHR 0xB0]"

definition emoji_banknote_with_dollar_sign :: string where
  "emoji_banknote_with_dollar_sign = [CHR 0xF0, CHR 0x9F, CHR 0x92, CHR 0xB5]"

definition emoji_bar_chart :: string where
  "emoji_bar_chart = [CHR 0xF0, CHR 0x9F, CHR 0x93, CHR 0x8A]"

definition emoji_chart_with_upwards_trend :: string where
  "emoji_chart_with_upwards_trend = [CHR 0xF0, CHR 0x9F, CHR 0x93, CHR 0x88]"

definition emoji_coin :: string where
  "emoji_coin = [CHR 0xF0, CHR 0x9F, CHR 0xAA, CHR 0x99]"

definition emoji_direct_hit :: string where
  "emoji_direct_hit = [CHR 0xF0, CHR 0x9F, CHR 0x8E, CHR 0xAF]"

definition emoji_e_mail_symbol :: string where
  "emoji_e_mail_symbol = [CHR 0xF0, CHR 0x9F, CHR 0x93, CHR 0xA7]"

definition emoji_electric_light_bulb :: string where
  "emoji_electric_light_bulb = [CHR 0xF0, CHR 0x9F, CHR 0x92, CHR 0xA1]"

definition emoji_electric_plug :: string where
  "emoji_electric_plug = [CHR 0xF0, CHR 0x9F, CHR 0x94, CHR 0x8C]"

definition emoji_fire :: string where
  "emoji_fire = [CHR 0xF0, CHR 0x9F, CHR 0x94, CHR 0xA5]"

definition emoji_gem_stone :: string where
  "emoji_gem_stone = [CHR 0xF0, CHR 0x9F, CHR 0x92, CHR 0x8E]"

definition emoji_headphone :: string where
  "emoji_headphone = [CHR 0xF0, CHR 0x9F, CHR 0x8E, CHR 0xA7]"

definition emoji_high_voltage_sign :: string where
  "emoji_high_voltage_sign = [CHR 0xE2, CHR 0x9A, CHR 0xA1]"

definition emoji_link_symbol :: string where
  "emoji_link_symbol = [CHR 0xF0, CHR 0x9F, CHR 0x94, CHR 0x97]"

definition emoji_love_letter :: string where
  "emoji_love_letter = [CHR 0xF0, CHR 0x9F, CHR 0x92, CHR 0x8C]"

definition emoji_mobile_phone :: string where
  "emoji_mobile_phone = [CHR 0xF0, CHR 0x9F, CHR 0x93, CHR 0xB1]"

definition emoji_money_bag :: string where
  "emoji_money_bag = [CHR 0xF0, CHR 0x9F, CHR 0x92, CHR 0xB0]"

definition emoji_money_mouth_face :: string where
  "emoji_money_mouth_face = [CHR 0xF0, CHR 0x9F, CHR 0xA4, CHR 0x91]"

definition emoji_money_with_wings :: string where
  "emoji_money_with_wings = [CHR 0xF0, CHR 0x9F, CHR 0x92, CHR 0xB8]"

definition emoji_newspaper :: string where
  "emoji_newspaper = [CHR 0xF0, CHR 0x9F, CHR 0x93, CHR 0xB0]"

definition emoji_personal_computer :: string where
  "emoji_personal_computer = [CHR 0xF0, CHR 0x9F, CHR 0x92, CHR 0xBB]"

definition emoji_police_cars_revolving_light :: string where
  "emoji_police_cars_revolving_light = [CHR 0xF0, CHR 0x9F, CHR 0x9A, CHR 0xA8]"

definition emoji_robot_face :: string where
  "emoji_robot_face = [CHR 0xF0, CHR 0x9F, CHR 0xA4, CHR 0x96]"

definition emoji_rocket :: string where
  "emoji_rocket = [CHR 0xF0, CHR 0x9F, CHR 0x9A, CHR 0x80]"

definition emoji_trophy :: string where
  "emoji_trophy = [CHR 0xF0, CHR 0x9F, CHR 0x8F, CHR 0x86]"

definition emoji_watch :: string where
  "emoji_watch = [CHR 0xE2, CHR 0x8C, CHR 0x9A]"

definition emoji_white_medium_star :: string where
  "emoji_white_medium_star = [CHR 0xE2, CHR 0xAD, CHR 0x90]"

definition emoji_white_up_pointing_backhand_index :: string where
  "emoji_white_up_pointing_backhand_index = [CHR 0xF0, CHR 0x9F, CHR 0x91, CHR 0x86]"

text \<open>The tables of \<open>ContentGenerator.__init__\<close> and of \<open>generate_post\<close>.\<close>

definition emojis :: "(string \<times> string list) list" where
  "emojis =
     [(''make_money'', [emoji_money_bag, emoji_banknote_with_dollar_sign, emoji_money_mouth_face, emoji_money_with_wings, emoji_trophy, emoji_gem_stone, emoji_rocket]),
      (''ai_tools'', [emoji_robot_face, emoji_high_voltage_sign, emoji_rocket, emoji_electric_light_bulb, emoji_fire, emoji_white_medium_star, emoji_direct_hit]),
      (''crypto_airdrops'', [emoji_coin, emoji_gem_stone, emoji_rocket, emoji_chart_with_upwards_trend, emoji_white_medium_star, emoji_fire, emoji_money_bag]),
      (''newsletters'', [emoji_e_mail_symbol, emoji_newspaper, emoji_bar_chart, emoji_love_letter, emoji_direct_hit, emoji_chart_with_upwards_trend, emoji_white_medium_star]),
      (''gadgets'', [emoji_mobile_phone, emoji_personal_computer, emoji_watch, emoji_headphone, emoji_electric_plug, emoji_rocket, emoji_electric_light_bulb])]"

definition hooks :: "string list" where
  "hooks =
     [emoji_police_cars_revolving_light @ '' MONEY OPPORTUNITY ALERT!'',
      emoji_money_bag @ '' EXCLUSIVE DEAL DISCOVERED!'',
      emoji_fire @ '' TRENDING NOW - LIMITED TIME!'',
      emoji_high_voltage_sign @ '' INSTANT PROFIT OPPORTUNITY!'',
      emoji_direct_hit @ '' HIGH-COMMISSION ALERT!'',
      emoji_gem_stone @ '' PREMIUM OPPORTUNITY FOUND!'',
      emoji_rocket @ '' VIRAL MONEY-MAKER SPOTTED!'']"

definition ctas :: "string list" where
  "ctas =
     [emoji_white_up_pointing_backhand_index @ '' CLICK TO CLAIM YOUR OPPORTUNITY'',
      emoji_link_symbol @ '' TAP HERE TO START EARNING'',
      emoji_money_bag @ '' CLICK NOW - LIMITED SPOTS'',
      emoji_high_voltage_sign @ '' INSTANT ACCESS - CLICK HERE'',
      emoji_direct_hit @ '' CLAIM YOUR COMMISSION NOW'',
      emoji_rocket @ '' START EARNING TODAY - CLICK'',
      emoji_gem_stone @ '' EXCLUSIVE ACCESS - TAP HERE'']"

definition urgency_phrases :: "string list" where
  "urgency_phrases =
     [emoji_alarm_clock @ '' *Limited time offer - Act fast!*'',
      emoji_fire @ '' *Trending now - Don'' @ [CHR 0x27] @ ''t miss out!*'',
      emoji_high_voltage_sign @ '' *High demand - Secure your spot!*'',
      emoji_gem_stone @ '' *Exclusive access - Limited availability!*'',
      emoji_rocket @ '' *Viral opportunity - Join now!*'']"

text \<open>
  \<open>random.choice(seq)\<close>: the draw is the argument \<open>r\<close>, reduced to an index of the
  list; on an empty list \<open>random.choice\<close> raises IndexError.
\<close>

definition choice :: "nat \<Rightarrow> 'a list \<Rightarrow> error + 'a" where
  "choice r xs = (if xs = [] then Inl IndexError else Inr (xs ! (r mod length xs)))"

text \<open>
  \<open>f"{x:.2f}"\<close> and \<open>f"{x:.0f}"\<close>: the digits come from Python's float formatting,
  the argument \<open>fmt\<close> (number of decimals, value); formatting \<open>None\<close> with a float
  format raises TypeError.
\<close>

definition format_f :: "(nat \<Rightarrow> real \<Rightarrow> string) \<Rightarrow> nat \<Rightarrow> real option \<Rightarrow> error + string" where
  "format_f fmt d x = (case x of None \<Rightarrow> Inl TypeError | Some v \<Rightarrow> Inr (fmt d v))"

text \<open>\<open>if offer.gravity:\<close> is Python truthiness: \<open>None\<close> and \<open>0.0\<close> are false.\<close>

definition truthy :: "real option \<Rightarrow> bool" where
  "truthy g = (case g of None \<Rightarrow> False | Some v \<Rightarrow> v \<noteq> 0)"

definition replace_underscore :: "string \<Rightarrow> string" where
  "replace_underscore s = map (\<lambda>c. if c = CHR ''_'' then CHR '' '' else c) s"

definition bind :: "error + 'a \<Rightarrow> ('a \<Rightarrow> error + 'b) \<Rightarrow> error + 'b" where
  "bind m f = (case m of Inl e \<Rightarrow> Inl e | Inr x \<Rightarrow> f x)"

text \<open>
  \<open>ContentGenerator.generate_post\<close>. \<open>str_title\<close> is Python's \<open>str.title()\<close>;
  \<open>r1\<close> to \<open>r4\<close> are the four draws of \<open>random.choice\<close>, in the order of the source.
\<close>

definition generate_post ::
  "(nat \<Rightarrow> real \<Rightarrow> string) \<Rightarrow> (string \<Rightarrow> string) \<Rightarrow> nat \<Rightarrow> nat \<Rightarrow> nat \<Rightarrow> nat \<Rightarrow> Offer
     \<Rightarrow> error + string" where
  "generate_post fmt str_title r1 r2 r3 r4 offer =
     bind (choice r1 (case map_of emojis (category offer) of
                        None \<Rightarrow> [emoji_fire] | Some es \<Rightarrow> es)) (\<lambda>emoji.
     bind (choice r2 hooks) (\<lambda>hook.
     bind (choice r3 ctas) (\<lambda>cta.
     bind (format_f fmt 2 (Some (commission offer))) (\<lambda>amount.
     let commission_text =
           (if platform offer \<in> set [''SparkLoop'', ''beehiiv'']
            then emoji_banknote_with_dollar_sign @ '' **Earn**: $'' @ amount
                   @ '' per subscriber''
            else emoji_banknote_with_dollar_sign @ '' **Commission**: $'' @ amount);
         post0 = emoji @ '' **'' @ hook @ ''** '' @ emoji @ [CHR 0x0A, CHR 0x0A];
         post1 = post0 @ emoji_direct_hit @ '' **'' @ title offer @ ''**''
                   @ [CHR 0x0A, CHR 0x0A];
         post2 = post1 @ commission_text @ [CHR 0x0A];
         post3 = post2 @ emoji_white_medium_star @ '' **Platform**: '' @ platform offer
                   @ [CHR 0x0A];
         post4 = post3 @ emoji_chart_with_upwards_trend @ '' **Category**: ''
                   @ str_title (replace_underscore (category offer)) @ [CHR 0x0A]
     in
     bind (if truthy (gravity offer)
           then bind (format_f fmt 0 (gravity offer)) (\<lambda>pop.
                  Inr (post4 @ emoji_fire @ '' **Popularity**: '' @ pop @ ''/100''
                         @ [CHR 0x0A]))
           else Inr post4) (\<lambda>post5.
     let post6 = post5 @ [CHR 0x0A] @ description offer @ [CHR 0x0A, CHR 0x0A];
         post7 = post6 @ cta @ [CHR 0x0A];
         post8 = post7 @ emoji_link_symbol @ '' '' @ affiliate_link offer
                   @ [CHR 0x0A, CHR 0x0A]
     in
     bind (choice r4 urgency_phrases) (\<lambda>phrase. Inr (post8 @ phrase)))))))"

section \<open>Sample data\<close>

text \<open>
  A store holding one user, Alice, with no referrals yet; the store after Bob joined without
  a code; a store where Carol has earned the double 0.1 and Bob is stored, with a referral
  of Bob to Carol worth the double 0.2; a referral that names Alice's code;
  a referral whose code belongs to nobody; a second store with three users for the
  leaderboard; and one offer.
\<close>

definition alice :: User where
  "alice = \<lparr>u_id = Some 1, user_id = 1, username = ''alice'', first_name = ''Alice'',
            referral_code = ''LUXAB12CD34'', referred_by = None, referral_count = 0,
            total_earnings = 0, u_created_at = 0, last_active = 0\<rparr>"

definition db_alice :: Database where
  "db_alice = \<lparr>offers = [], users = [alice], referrals = [], posts = []\<rparr>"

definition bob :: User where
  "bob = \<lparr>u_id = Some 2, user_id = 2, username = ''bob'', first_name = ''Bob'',
          referral_code = ''LUX0A1B2C3D'', referred_by = None, referral_count = 0,
          total_earnings = 0, u_created_at = 4, last_active = 4\<rparr>"

definition db_alice_bob :: Database where
  "db_alice_bob = \<lparr>offers = [], users = [alice, bob], referrals = [], posts = []\<rparr>"

definition carol :: User where
  "carol = \<lparr>u_id = Some 1, user_id = 3, username = ''carol'', first_name = ''Carol'',
            referral_code = ''LUXCA401CA4'', referred_by = None, referral_count = 1,
            total_earnings = 3602879701896397 / 2 ^ 55, u_created_at = 0, last_active = 0\<rparr>"

definition db_carol :: Database where
  "db_carol = \<lparr>offers = [], users = [carol, bob], referrals = [], posts = []\<rparr>"

definition referral_to_carol :: Referral where
  "referral_to_carol =
     \<lparr>r_id = None, referrer_code = ''LUXCA401CA4'', referred_user_id = 2,
      reward_amount = 3602879701896397 / 2 ^ 54, status = ''confirmed'', r_created_at = 0,
      r_updated_at = 0\<rparr>"

definition referral_to_alice :: Referral where
  "referral_to_alice =
     \<lparr>r_id = None, referrer_code = ''LUXAB12CD34'', referred_user_id = 2, reward_amount = 5,
      status = ''confirmed'', r_created_at = 0, r_updated_at = 0\<rparr>"

definition dangling :: Referral where
  "dangling =
     \<lparr>r_id = None, referrer_code = ''LUXFFFFFFFF'', referred_user_id = 2, reward_amount = 5,
      status = ''confirmed'', r_created_at = 0, r_updated_at = 0\<rparr>"

definition db_three :: Database where
  "db_three =
     \<lparr>offers = [],
      users = [alice\<lparr>referral_count := 2, total_earnings := 10\<rparr>,
               alice\<lparr>u_id := Some 2, user_id := 2, referral_code := ''LUX00000002''\<rparr>,
               alice\<lparr>u_id := Some 3, user_id := 3, referral_code := ''LUX00000003'',
                     referral_count := 2, total_earnings := 15\<rparr>],
      referrals = [], posts = []\<rparr>"

definition sample_offer :: Offer where
  "sample_offer =
     \<lparr>o_id = Some 1, title = ''AI Weekly Insider'', description = ''Weekly newsletter.'',
      category = ''ai_tools'', commission = 4, gravity = None,
      affiliate_link = ''https://trendbot.link/sparkloop/1?ref=trendbot'',
      platform = ''SparkLoop'', o_created_at = 0, o_updated_at = 0\<rparr>"

text \<open>A stand-in for Python's float formatting, used on the sample offer only.\<close>

definition sample_fmt :: "nat \<Rightarrow> real \<Rightarrow> string" where
  "sample_fmt d v = (if d = 0 then ''72'' else ''4.00'')"

section \<open>Lemmas on rounding\<close>

text \<open>
  A magnitude \<open>m / 2 ^ p\<close> with \<open>p\<close> at most 1074 is \<open>m\<close> shifted left in the
  unit of the smallest subnormal. If \<open>m\<close> has at most 53 bits it is a double and
  rounding returns it; if it has more, the bits beyond the 53rd are rounded away.
\<close>

lemma bit_length_double: "0 < n \<Longrightarrow> bit_length (2 * n) = Suc (bit_length n)"
  by (subst bit_length.simps) simp

lemma bit_length_shift: "0 < m \<Longrightarrow> bit_length (m * 2 ^ j) = bit_length m + j"
proof (induction j)
  case 0
  then show ?case by simp
next
  case (Suc j)
  have "bit_length (m * 2 ^ Suc j) = bit_length (2 * (m * 2 ^ j))"
    by (simp add: mult.commute mult.left_commute)
  also have "\<dots> = Suc (bit_length (m * 2 ^ j))"
    using Suc.prems by (intro bit_length_double) simp
  finally show ?case using Suc by simp
qed

lemma round_even_of_int: "round_even (of_int z) = z"
  by (simp add: round_even_def)

lemma scaled_nat:
  assumes "p \<le> emin"
  shows "\<bar>real m / 2 ^ p\<bar> * 2 ^ emin = real (m * 2 ^ (emin - p))"
proof -
  have "(2::real) ^ emin = 2 ^ p * 2 ^ (emin - p)"
    using assms by (simp flip: power_add)
  then show ?thesis by simp
qed


lemma round_double_exact:
  assumes bl: "bit_length m \<le> 53" and p: "p \<le> emin"
  shows "round_double (real m / 2 ^ p) = real m / 2 ^ p"
proof (cases "m = 0")
  case True
  then show ?thesis by (simp add: round_double_def)
next
  case False
  then have m: "0 < m" by simp
  let ?j = "emin - p"
  let ?s = "bit_length m + ?j - 53"
  have K: "\<bar>real m / 2 ^ p\<bar> * 2 ^ emin = real (m * 2 ^ ?j)"
    by (rule scaled_nat [OF p])
  have fl: "nat \<lfloor>real (m * 2 ^ ?j)\<rfloor> = m * 2 ^ ?j"
    by (metis floor_of_nat nat_int)
  have s: "bit_length (m * 2 ^ ?j) - 53 = ?s"
    by (simp add: bit_length_shift [OF m])
  have le: "?s \<le> ?j" using bl by simp
  have q: "real (m * 2 ^ ?j) / 2 ^ ?s = of_int (int (m * 2 ^ (?j - ?s)))"
  proof -
    have "(2::real) ^ ?j = 2 ^ (?j - ?s) * 2 ^ ?s"
      using le by (simp flip: power_add)
    then show ?thesis by simp
  qed
  have sg: "sgn (real m / 2 ^ p) = 1"
    using m by (simp add: sgn_if)
  have "round_double (real m / 2 ^ p)
          = real (m * 2 ^ (?j - ?s)) * 2 ^ ?s / 2 ^ emin"
    unfolding round_double_def Let_def K fl s q sg round_even_of_int by simp
  also have "\<dots> = real m * (2 ^ (?j - ?s) * 2 ^ ?s) / 2 ^ emin"
    by simp
  also have "(2::real) ^ (?j - ?s) * 2 ^ ?s = 2 ^ ?j"
    using le by (simp flip: power_add)
  also have "real m * 2 ^ ?j / 2 ^ emin = real m / 2 ^ p"
  proof -
    have "(2::real) ^ emin = 2 ^ p * 2 ^ ?j"
      using p by (simp flip: power_add)
    then show ?thesis by simp
  qed
  finally show ?thesis .
qed

lemma bit_length_5: "bit_length 5 = 3"
  by (simp add: bit_length.simps)


lemma double_add_0_5: "double_add 0 5 = 5"
  using round_double_exact [of 5 0] by (simp add: double_add_def bit_length_5)



section \<open>Lemmas on the tables\<close>

text \<open>
  \<open>find\<close> is \<open>fetchone()\<close> after a \<open>WHERE\<close>; \<open>map\<close> with a conditional is an
  \<open>UPDATE ... WHERE\<close>. The lemmas relate the two.
\<close>

lemma find_None_map_if:
  "find P xs = None \<Longrightarrow> map (\<lambda>x. if P x then f x else x) xs = xs"
  by (induction xs) (auto split: if_splits)

lemma find_append_None: "find P xs = None \<Longrightarrow> find P (xs @ ys) = find P ys"
  by (induction xs) (auto split: if_splits)


lemma find_map_if:
  "find P xs = Some u \<Longrightarrow> (\<And>x. P (f x) = P x) \<Longrightarrow>
   find P (map (\<lambda>x. if P x then f x else x) xs) = Some (f u)"
  by (induction xs) (auto split: if_splits)


lemma find_None_notin: "find (\<lambda>r. k r = v) xs = None \<longleftrightarrow> v \<notin> set (map k xs)"
  by (induction xs) auto

lemma filter_map_if:
  "filter (\<lambda>x. \<not> P x) (map (\<lambda>x. if P x then f x else x) xs) = filter (\<lambda>x. \<not> P x) xs"
  if "\<And>x. P (f x) = P x"
  using that by (induction xs) auto

subsection \<open>The methods on their success paths\<close>


lemma save_user_insert:
  assumes "get_user db (user_id user) = None"
    and "referral_code user \<notin> set (map referral_code (users db))"
  shows "save_user db user now ts =
           Inr (db\<lparr>users := users db @
                  [\<lparr>u_id = Some (lastrowid (map u_id (users db))), user_id = user_id user,
                    username = username user, first_name = first_name user,
                    referral_code = referral_code user, referred_by = referred_by user,
                    referral_count = 0, total_earnings = 0, u_created_at = ts,
                    last_active = ts\<rparr>]\<rparr>, lastrowid (map u_id (users db)))"
proof -
  have none: "find (\<lambda>r. user_id r = user_id user) (users db) = None"
    using assms(1) by (simp only: get_user_def)
  then have "user_id user \<notin> set (map user_id (users db))"
    by (simp add: find_None_notin)
  with assms(2) show ?thesis
    unfolding save_user_def none by (simp add: Let_def)
qed


lemma map_sel_map_if:
  "(\<And>x. sel (f x) = sel x) \<Longrightarrow> map sel (map (\<lambda>x. if P x then f x else x) xs) = map sel xs"
  by (induction xs) auto

lemma save_user_update:
  assumes "get_user db (user_id user) = Some old"
  shows "\<exists>db' n. save_user db user now ts = Inr (db', n)
           \<and> get_user db' (user_id user)
               = Some (old\<lparr>username := username user, first_name := first_name user,
                           last_active := now\<rparr>)
           \<and> map u_id (users db') = map u_id (users db)
           \<and> map user_id (users db') = map user_id (users db)
           \<and> map referral_code (users db') = map referral_code (users db)
           \<and> map referred_by (users db') = map referred_by (users db)
           \<and> map referral_count (users db') = map referral_count (users db)
           \<and> map total_earnings (users db') = map total_earnings (users db)
           \<and> map u_created_at (users db') = map u_created_at (users db)
           \<and> filter (\<lambda>r. user_id r \<noteq> user_id user) (users db')
               = filter (\<lambda>r. user_id r \<noteq> user_id user) (users db)
           \<and> referrals db' = referrals db \<and> offers db' = offers db \<and> posts db' = posts db"
proof -
  let ?P = "\<lambda>r. user_id r = user_id user"
  let ?f = "\<lambda>r. r\<lparr>username := username user, first_name := first_name user,
                    last_active := now\<rparr>"
  let ?us = "map (\<lambda>r. if ?P r then ?f r else r) (users db)"
  have f: "find ?P (users db) = Some old"
    using assms by (simp only: get_user_def)
  have su: "save_user db user now ts
              = Inr (db\<lparr>users := ?us\<rparr>, case u_id old of None \<Rightarrow> 0 | Some n \<Rightarrow> n)"
    unfolding save_user_def f by simp
  have "find ?P ?us = Some (?f old)"
    by (rule find_map_if [OF f]) simp
  moreover have "filter (\<lambda>r. \<not> ?P r) ?us = filter (\<lambda>r. \<not> ?P r) (users db)"
    by (rule filter_map_if) simp
  moreover have "map u_id ?us = map u_id (users db)" by (rule map_sel_map_if) simp
  moreover have "map user_id ?us = map user_id (users db)" by (rule map_sel_map_if) simp
  moreover have "map referral_code ?us = map referral_code (users db)"
    by (rule map_sel_map_if) simp
  moreover have "map referred_by ?us = map referred_by (users db)"
    by (rule map_sel_map_if) simp
  moreover have "map referral_count ?us = map referral_count (users db)"
    by (rule map_sel_map_if) simp
  moreover have "map total_earnings ?us = map total_earnings (users db)"
    by (rule map_sel_map_if) simp
  moreover have "map u_created_at ?us = map u_created_at (users db)"
    by (rule map_sel_map_if) simp
  ultimately show ?thesis
    unfolding su get_user_def by simp
qed

lemma start_command_returning:
  assumes "get_user db uid = Some existing"
  shows "\<exists>db'. start_command db uid uname fname args tok now ts = Inr (db', ''returning'', None)
           \<and> get_user db' uid = Some (existing\<lparr>last_active := now\<rparr>)
           \<and> referrals db' = referrals db
           \<and> map referral_code (users db') = map referral_code (users db)
           \<and> map referred_by (users db') = map referred_by (users db)
           \<and> map referral_count (users db') = map referral_count (users db)
           \<and> map total_earnings (users db') = map total_earnings (users db)"
proof -
  have uid: "user_id existing = uid"
    using assms by (auto simp: get_user_def find_Some_iff)
  let ?e = "existing\<lparr>last_active := now\<rparr>"
  have "get_user db (user_id ?e) = Some existing"
    using assms uid by simp
  from save_user_update [OF this, of now ts]
  obtain db' n where "save_user db ?e now ts = Inr (db', n)"
    and "get_user db' uid = Some (existing\<lparr>last_active := now\<rparr>)"
    and "referrals db' = referrals db"
    and "map referral_code (users db') = map referral_code (users db)"
    and "map referred_by (users db') = map referred_by (users db)"
    and "map referral_count (users db') = map referral_count (users db)"
    and "map total_earnings (users db') = map total_earnings (users db)"
    using uid by auto
  then show ?thesis
    using assms by (simp add: start_command_def Let_def)
qed

lemma start_command_new_plain:
  assumes new: "get_user db uid = None"
    and fresh: "''LUX'' @ upper tok \<notin> set (map referral_code (users db))"
  shows "start_command db uid uname fname [] tok now ts
           = Inr (db\<lparr>users := users db @
                    [\<lparr>u_id = Some (lastrowid (map u_id (users db))), user_id = uid,
                      username = or_empty uname, first_name = or_empty fname,
                      referral_code = ''LUX'' @ upper tok, referred_by = None,
                      referral_count = 0, total_earnings = 0, u_created_at = ts,
                      last_active = ts\<rparr>]\<rparr>, ''new'', None)"
proof -
  let ?nu = "new_User uid (or_empty uname) (or_empty fname) None now tok"
  have "save_user db ?nu now ts
          = Inr (db\<lparr>users := users db @
                    [\<lparr>u_id = Some (lastrowid (map u_id (users db))), user_id = uid,
                      username = or_empty uname, first_name = or_empty fname,
                      referral_code = ''LUX'' @ upper tok, referred_by = None,
                      referral_count = 0, total_earnings = 0, u_created_at = ts,
                      last_active = ts\<rparr>]\<rparr>, lastrowid (map u_id (users db)))"
    using save_user_insert [of db ?nu now ts] new fresh by (simp add: new_User_def)
  then show ?thesis
    using new by (simp add: start_command_def Let_def)
qed

lemma onboard_twice:
  assumes new: "get_user db uid = None"
    and fresh: "''LUX'' @ upper tok \<notin> set (map referral_code (users db))"
  shows "\<exists>db1 db2. start_command db uid uname fname [] tok now ts = Inr (db1, ''new'', None)
           \<and> map_option referral_code (get_user db1 uid) = Some (''LUX'' @ upper tok)
           \<and> start_command db1 uid uname' fname' [] tok' now' ts' = Inr (db2, ''returning'', None)
           \<and> map_option referral_code (get_user db2 uid) = Some (''LUX'' @ upper tok)"
proof -
  let ?row = "\<lparr>u_id = Some (lastrowid (map u_id (users db))), user_id = uid,
               username = or_empty uname, first_name = or_empty fname,
               referral_code = ''LUX'' @ upper tok, referred_by = None,
               referral_count = 0, total_earnings = 0, u_created_at = ts, last_active = ts\<rparr>"
  let ?db1 = "db\<lparr>users := users db @ [?row]\<rparr>"
  have first: "start_command db uid uname fname [] tok now ts = Inr (?db1, ''new'', None)"
    by (rule start_command_new_plain [OF new fresh])
  have "find (\<lambda>r. user_id r = uid) (users db) = None"
    using new by (simp only: get_user_def)
  then have "find (\<lambda>r. user_id r = uid) (users db @ [?row]) = Some ?row"
    by (subst find_append_None) simp_all
  then have g1: "get_user ?db1 uid = Some ?row"
    by (simp add: get_user_def)
  from start_command_returning [OF g1, of uname' fname' "[]" tok' now' ts']
  obtain db2 where "start_command ?db1 uid uname' fname' [] tok' now' ts'
                      = Inr (db2, ''returning'', None)"
    and "get_user db2 uid = Some (?row\<lparr>last_active := now'\<rparr>)"
    by auto
  with first g1 show ?thesis by simp
qed

lemma start_command_unknown_code:
  assumes new: "get_user db uid = None"
    and unknown: "get_user_by_referral_code db code = None"
    and fresh: "''LUX'' @ upper tok \<notin> set (map referral_code (users db))"
    and other: "code \<noteq> ''LUX'' @ upper tok"
  shows "start_command db uid uname fname (code # rest) tok now ts
           = Inr (db\<lparr>users := users db @
                    [\<lparr>u_id = Some (lastrowid (map u_id (users db))), user_id = uid,
                      username = or_empty uname, first_name = or_empty fname,
                      referral_code = ''LUX'' @ upper tok, referred_by = Some code,
                      referral_count = 0, total_earnings = 0, u_created_at = ts,
                      last_active = ts\<rparr>]\<rparr>,
                  if code = [] then ''new'' else ''new_with_referral'', None)"
proof -
  let ?nu = "new_User uid (or_empty uname) (or_empty fname) (Some code) now tok"
  let ?row = "\<lparr>u_id = Some (lastrowid (map u_id (users db))), user_id = uid,
               username = or_empty uname, first_name = or_empty fname,
               referral_code = ''LUX'' @ upper tok, referred_by = Some code,
               referral_count = 0, total_earnings = 0, u_created_at = ts, last_active = ts\<rparr>"
  have su: "save_user db ?nu now ts
          = Inr (db\<lparr>users := users db @ [?row]\<rparr>, lastrowid (map u_id (users db)))"
    using save_user_insert [of db ?nu now ts] new fresh by (simp add: new_User_def)
  have "find (\<lambda>r. referral_code r = code) (users db) = None"
    using unknown by (simp only: get_user_by_referral_code_def)
  then have "find (\<lambda>r. referral_code r = code) (users db @ [?row]) = None"
    using other by (subst find_append_None) auto
  then have "get_user_by_referral_code (db\<lparr>users := users db @ [?row]\<rparr>) code = None"
    by (simp add: get_user_by_referral_code_def)
  with su show ?thesis
    using new by (simp add: start_command_def Let_def)
qed

lemma upper_sample: "upper ''0a1b2c3d'' = ''0A1B2C3D''"
  by code_simp

lemma start_command_registers:
  assumes "start_command db uid uname fname [] tok now ts = Inr (db1, w, x)"
  shows "\<exists>row. get_user db1 uid = Some row
           \<and> (get_user db uid = None \<longrightarrow> referral_code row = ''LUX'' @ upper tok)"
proof (cases "get_user db uid")
  case None
  let ?nu = "new_User uid (or_empty uname) (or_empty fname) None now tok"
  from assms None have "\<exists>y. save_user db ?nu now ts = Inr y"
    by (auto simp: start_command_def Let_def split: sum.splits)
  then have fresh: "''LUX'' @ upper tok \<notin> set (map referral_code (users db))"
    using None by (auto simp: save_user_def get_user_def new_User_def split: if_splits)
  from onboard_twice [OF None fresh, of uname fname now ts uname fname tok now ts] assms None
  show ?thesis by auto
next
  case (Some existing)
  from start_command_returning [OF Some, of uname fname "[]" tok now ts] assms Some
  show ?thesis by auto
qed

lemmas sample_defs = alice_def bob_def db_alice_def db_alice_bob_def referral_to_alice_def
  dangling_def init_database_def carol_def db_carol_def referral_to_carol_def

lemmas method_defs = get_user_def get_user_by_referral_code_def save_user_def
  save_referral_def start_command_def new_User_def or_empty_def lastrowid_def Let_def

subsection \<open>The leaderboard query\<close>

lemma leaderboard_rows_sorted:
  "sorted_wrt (\<lambda>a b. referral_count b < referral_count a
                  \<or> (referral_count a = referral_count b \<and> total_earnings b \<le> total_earnings a))
     (sort_key (\<lambda>u. (- referral_count u, - total_earnings u)) (xs :: User list))"
proof -
  let ?k = "\<lambda>u::User. (- referral_count u, - total_earnings u)"
  have "sorted (map ?k (sort_key ?k xs))"
    by (rule sorted_sort_key)
  then have "sorted_wrt (\<lambda>a b. ?k a \<le> ?k b) (sort_key ?k xs)"
    by (simp only: sorted_map)
  then show ?thesis
    by (rule sorted_wrt_mono_rel [rotated]) auto
qed

subsection \<open>The shape of a generated post\<close>

text \<open>
  Whatever is drawn, the post is a fixed prefix, then the popularity line if the gravity is
  truthy, then a fixed suffix; prefix and suffix do not depend on the gravity.
\<close>

lemma choice_nonempty: "xs \<noteq> [] \<Longrightarrow> choice r xs = Inr (xs ! (r mod length xs))"
  by (simp add: choice_def)

lemma emojis_nonempty:
  "(case map_of emojis c of None \<Rightarrow> [emoji_fire] | Some es \<Rightarrow> es) \<noteq> []"
  by (auto simp: emojis_def split: option.splits if_splits)

lemma hooks_nonempty: "hooks \<noteq> []"
  by (simp add: hooks_def)

lemma ctas_nonempty: "ctas \<noteq> []"
  by (simp add: ctas_def)

lemma urgency_phrases_nonempty: "urgency_phrases \<noteq> []"
  by (simp add: urgency_phrases_def)

lemma generate_post_shape:
  "\<exists>pre suf.
     (\<forall>g. generate_post fmt str_title r1 r2 r3 r4 (offer\<lparr>gravity := g\<rparr>)
            = Inr (pre @ (if truthy g
                          then emoji_fire @ '' **Popularity**: '' @ fmt 0 (the g) @ ''/100''
                                 @ [CHR 0x0A]
                          else []) @ suf))
     \<and> pre \<noteq> [] \<and> sublist (title offer) pre \<and> sublist (affiliate_link offer) suf"
proof -
  let ?es = "case map_of emojis (category offer) of None \<Rightarrow> [emoji_fire] | Some es \<Rightarrow> es"
  let ?emoji = "?es ! (r1 mod length ?es)"
  let ?hook = "hooks ! (r2 mod length hooks)"
  let ?cta = "ctas ! (r3 mod length ctas)"
  let ?phrase = "urgency_phrases ! (r4 mod length urgency_phrases)"
  let ?amount = "fmt 2 (commission offer)"
  let ?ctext = "if platform offer \<in> set [''SparkLoop'', ''beehiiv'']
            then emoji_banknote_with_dollar_sign @ '' **Earn**: $'' @ ?amount
                   @ '' per subscriber''
            else emoji_banknote_with_dollar_sign @ '' **Commission**: $'' @ ?amount"
  let ?a = "?emoji @ '' **'' @ ?hook @ ''** '' @ ?emoji @ [CHR 0x0A, CHR 0x0A]
              @ emoji_direct_hit @ '' **''"
  let ?b = "''**'' @ [CHR 0x0A, CHR 0x0A] @ ?ctext @ [CHR 0x0A]
              @ emoji_white_medium_star @ '' **Platform**: '' @ platform offer @ [CHR 0x0A]
              @ emoji_chart_with_upwards_trend @ '' **Category**: ''
              @ str_title (replace_underscore (category offer)) @ [CHR 0x0A]"
  let ?c = "[CHR 0x0A] @ description offer @ [CHR 0x0A, CHR 0x0A] @ ?cta @ [CHR 0x0A]
              @ emoji_link_symbol @ '' ''"
  let ?d = "[CHR 0x0A, CHR 0x0A] @ ?phrase"
  let ?pre = "?a @ title offer @ ?b"
  let ?suf = "?c @ affiliate_link offer @ ?d"
  have "generate_post fmt str_title r1 r2 r3 r4 (offer\<lparr>gravity := g\<rparr>)
            = Inr (?pre @ (if truthy g
                          then emoji_fire @ '' **Popularity**: '' @ fmt 0 (the g) @ ''/100''
                                 @ [CHR 0x0A]
                          else []) @ ?suf)" for g
    unfolding generate_post_def
    by (cases g)
       (simp_all add: choice_nonempty emojis_nonempty hooks_nonempty ctas_nonempty
          urgency_phrases_nonempty bind_def format_f_def truthy_def Let_def)
  moreover have "?pre \<noteq> []" by simp
  moreover have "sublist (title offer) ?pre"
    by (rule sublist_appendI)
  moreover have "sublist (affiliate_link offer) ?suf"
    by (rule sublist_appendI)
  ultimately show ?thesis by blast
qed

section \<open>The claims\<close>

subsection \<open>C1: a referral whose code belongs to nobody\<close>

text \<open>
  C1 as stated: \<open>save_referral\<close> fails and leaves no Referral row when the
  referrer_code resolves to no user. The code does the opposite. In the store holding Alice
  and Bob, the referral \<open>dangling\<close> refers Bob, who is stored, under a code that nobody
  has; \<open>save_referral\<close> returns the new row's id and the row is in the table.
\<close>

theorem save_referral_dangling_counterexample:
  "get_user_by_referral_code db_alice_bob (referrer_code dangling) = None
   \<and> referred_user_id dangling \<in> set (map user_id (users db_alice_bob))
   \<and> save_referral db_alice_bob dangling 9 =
       Inr (\<lparr>offers = [], users = [alice, bob],
             referrals = [\<lparr>r_id = Some 1, referrer_code = ''LUXFFFFFFFF'',
                           referred_user_id = 2, reward_amount = 5, status = ''confirmed'',
                           r_created_at = 9, r_updated_at = 9\<rparr>],
             posts = []\<rparr>, 1)"
  by (simp add: save_referral_def get_user_by_referral_code_def Let_def
        db_alice_bob_def alice_def bob_def dangling_def lastrowid_def)

text \<open>
  C1 as the code has it: when the referrer_code resolves to no user and the referred user
  is a stored user, \<open>save_referral\<close> succeeds, returns the id of the inserted row, appends
  exactly that row to \<open>referrals\<close> and changes nothing else: the UPDATE matches no row.
  The caller \<open>start_command\<close> resolves the code itself before it calls
  \<open>save_referral\<close>. Nothing is said of a referred user that is not stored, where the
  declared foreign key on \<open>referred_user_id\<close> would decide.
\<close>

theorem save_referral_unresolved:
  assumes "get_user_by_referral_code db (referrer_code referral) = None"
    and "referred_user_id referral \<in> set (map user_id (users db))"
  shows "save_referral db referral ts =
           Inr (db\<lparr>referrals := referrals db @
                     [referral\<lparr>r_id := Some (lastrowid (map r_id (referrals db))),
                               r_created_at := ts, r_updated_at := ts\<rparr>]\<rparr>,
                lastrowid (map r_id (referrals db)))"
  using assms
  by (simp add: save_referral_def get_user_by_referral_code_def Let_def find_None_map_if)

theorem save_referral_unresolved_witness:
  "get_user_by_referral_code db_alice_bob (referrer_code dangling) = None
   \<and> referred_user_id dangling \<in> set (map user_id (users db_alice_bob))
   \<and> save_referral db_alice_bob dangling 9 =
       Inr (db_alice_bob\<lparr>referrals := referrals db_alice_bob @
                     [dangling\<lparr>r_id := Some (lastrowid (map r_id (referrals db_alice_bob))),
                               r_created_at := 9, r_updated_at := 9\<rparr>]\<rparr>,
                lastrowid (map r_id (referrals db_alice_bob)))"
proof -
  have h1: "get_user_by_referral_code db_alice_bob (referrer_code dangling) = None"
    by (simp add: get_user_by_referral_code_def db_alice_bob_def alice_def bob_def
          dangling_def)
  have h2: "referred_user_id dangling \<in> set (map user_id (users db_alice_bob))"
    by (simp add: db_alice_bob_def alice_def bob_def dangling_def)
  from save_referral_unresolved [OF h1 h2, of 9] h1 h2 show ?thesis by simp
qed

subsection \<open>C2: a post logged for an offer that does not exist\<close>

text \<open>
  C2: \<open>log_post\<close> with an offer id that references no offer should fail and append
  nothing. On the freshly initialised store, which has no offer at all, \<open>log_post\<close>
  for offer 999 returns normally and the row is in \<open>posts\<close>: the foreign key that
  \<open>init_database\<close> declares on \<open>posts.offer_id\<close> is never enforced.
\<close>

theorem log_post_dangling:
  "Some 999 \<notin> set (map o_id (offers init_database)) \<and>
   log_post init_database 999 ''@trendbot'' 42 7 =
     Inr \<lparr>offers = [], users = [], referrals = [],
          posts = [\<lparr>p_id = 1, offer_id = 999, posted_at = 7, channel_id = ''@trendbot'',
                    message_id = 42\<rparr>]\<rparr>"
  by (simp add: log_post_def foreign_keys_def init_database_def lastrowid_def)

subsection \<open>C4: what an upsert of a stored user may change\<close>

text \<open>
  C4: for a stored user, \<open>save_user\<close> with the same user_id succeeds and rewrites
  username, first_name and last_active of that row only: the columns referral_code,
  referred_by, referral_count and total_earnings are the same in every row, and rows of
  other users are untouched. Consequently, when \<open>/start\<close> without arguments has been
  handled once for a platform user, handling it again answers \<open>returning\<close> (not new),
  and the referral_code stored for the user is the one stored after the first call; when
  the first call created the user, that is the code generated then.
\<close>

theorem save_user_keeps_referral_fields:
  "(get_user db (user_id user) = Some old \<longrightarrow>
      (\<exists>db' n. save_user db user now ts = Inr (db', n)
         \<and> get_user db' (user_id user)
             = Some (old\<lparr>username := username user, first_name := first_name user,
                         last_active := now\<rparr>)
         \<and> map referral_code (users db') = map referral_code (users db)
         \<and> map referred_by (users db') = map referred_by (users db)
         \<and> map referral_count (users db') = map referral_count (users db)
         \<and> map total_earnings (users db') = map total_earnings (users db)
         \<and> filter (\<lambda>r. user_id r \<noteq> user_id user) (users db')
             = filter (\<lambda>r. user_id r \<noteq> user_id user) (users db)))
   \<and> (start_command db uid uname fname [] tok now ts = Inr (dbm, w, x) \<longrightarrow>
      (\<exists>db''. start_command dbm uid uname' fname' [] tok' now' ts' = Inr (db'', ''returning'', None)
         \<and> get_user dbm uid \<noteq> None
         \<and> map_option referral_code (get_user db'' uid)
             = map_option referral_code (get_user dbm uid)
         \<and> (get_user db uid = None \<longrightarrow>
               map_option referral_code (get_user db'' uid) = Some (''LUX'' @ upper tok))))"
proof (intro conjI impI)
  assume "get_user db (user_id user) = Some old"
  from save_user_update [OF this, of now ts]
  show "\<exists>db' n. save_user db user now ts = Inr (db', n)
         \<and> get_user db' (user_id user)
             = Some (old\<lparr>username := username user, first_name := first_name user,
                         last_active := now\<rparr>)
         \<and> map referral_code (users db') = map referral_code (users db)
         \<and> map referred_by (users db') = map referred_by (users db)
         \<and> map referral_count (users db') = map referral_count (users db)
         \<and> map total_earnings (users db') = map total_earnings (users db)
         \<and> filter (\<lambda>r. user_id r \<noteq> user_id user) (users db')
             = filter (\<lambda>r. user_id r \<noteq> user_id user) (users db)"
    by blast
next
  assume first: "start_command db uid uname fname [] tok now ts = Inr (dbm, w, x)"
  from start_command_registers [OF first]
  obtain row where row: "get_user dbm uid = Some row"
    and code: "get_user db uid = None \<longrightarrow> referral_code row = ''LUX'' @ upper tok"
    by (elim exE conjE)
  from start_command_returning [OF row, of uname' fname' "[]" tok' now' ts']
  obtain db'' where "start_command dbm uid uname' fname' [] tok' now' ts'
                      = Inr (db'', ''returning'', None)"
    and "get_user db'' uid = Some (row\<lparr>last_active := now'\<rparr>)"
    by (elim exE conjE)
  with row code
  show "\<exists>db''. start_command dbm uid uname' fname' [] tok' now' ts' = Inr (db'', ''returning'', None)
         \<and> get_user dbm uid \<noteq> None
         \<and> map_option referral_code (get_user db'' uid)
             = map_option referral_code (get_user dbm uid)
         \<and> (get_user db uid = None \<longrightarrow>
               map_option referral_code (get_user db'' uid) = Some (''LUX'' @ upper tok))"
    by simp
qed

theorem save_user_keeps_referral_fields_witness:
  "get_user db_alice (user_id (alice\<lparr>username := ''al''\<rparr>)) = Some alice
   \<and> (\<exists>db' n. save_user db_alice (alice\<lparr>username := ''al''\<rparr>) 3 4 = Inr (db', n)
         \<and> map referral_code (users db') = map referral_code (users db_alice)
         \<and> map total_earnings (users db') = map total_earnings (users db_alice))
   \<and> start_command db_alice 2 (Some ''bob'') (Some ''Bob'') [] ''0a1b2c3d'' 3 4
         = Inr (db_alice_bob, ''new'', None)
   \<and> (\<exists>db2. start_command db_alice_bob 2 None None [] ''ffffffff'' 7 8
                 = Inr (db2, ''returning'', None)
         \<and> map_option referral_code (get_user db2 2) = Some ''LUX0A1B2C3D'')"
proof -
  have h1: "get_user db_alice (user_id (alice\<lparr>username := ''al''\<rparr>)) = Some alice"
    by (simp add: sample_defs method_defs)
  have h2: "start_command db_alice 2 (Some ''bob'') (Some ''Bob'') [] ''0a1b2c3d'' 3 4
              = Inr (db_alice_bob, ''new'', None)"
    by (simp add: sample_defs method_defs upper_sample)
  have h3: "get_user db_alice 2 = None"
    by (simp add: sample_defs method_defs)
  note t = save_user_keeps_referral_fields
             [where db = db_alice and user = "alice\<lparr>username := ''al''\<rparr>" and old = alice
                and now = 3 and ts = 4 and uid = 2 and uname = "Some ''bob''"
                and fname = "Some ''Bob''" and tok = "''0a1b2c3d''"
                and dbm = db_alice_bob and w = "''new''" and x = None
                and uname' = None and fname' = None and tok' = "''ffffffff''"
                and now' = 7 and ts' = 8]
  from t h1 h2 h3 show ?thesis
    by (auto simp: upper_sample)
qed

subsection \<open>C3: crediting the referrer\<close>




subsection \<open>C5: the leaderboard\<close>

text \<open>
  C5 as stated: for every limit, \<open>get_leaderboard limit\<close> returns at most \<open>limit\<close>
  users. A negative limit is a counterexample: SQLite reads \<open>LIMIT -1\<close> as no limit,
  and the store with three users returns its two referrers.
\<close>

theorem get_leaderboard_negative_limit_counterexample:
  "map user_id (get_leaderboard db_three (- 1)) = [3, 1]
   \<and> \<not> int (length (get_leaderboard db_three (- 1))) \<le> - 1"
  by (simp add: get_leaderboard_def db_three_def alice_def Let_def)

text \<open>
  C5 as the code has it: for every store and every limit that is not negative,
  \<open>get_leaderboard\<close> returns at most \<open>limit\<close> users; for every limit, the result
  holds only users with a positive referral_count and is sorted by referral_count
  descending, ties broken by total_earnings descending.
\<close>

theorem get_leaderboard_bounded_sorted:
  "(0 \<le> limit \<longrightarrow> int (length (get_leaderboard db limit)) \<le> limit)
   \<and> (\<forall>u \<in> set (get_leaderboard db limit). 0 < referral_count u)
   \<and> sorted_wrt (\<lambda>a b. referral_count b < referral_count a
                     \<or> (referral_count a = referral_count b
                          \<and> total_earnings b \<le> total_earnings a))
        (get_leaderboard db limit)"
proof (intro conjI impI ballI)
  assume "0 \<le> limit"
  then show "int (length (get_leaderboard db limit)) \<le> limit"
    by (simp add: get_leaderboard_def Let_def)
next
  fix u assume "u \<in> set (get_leaderboard db limit)"
  then have "u \<in> set (filter (\<lambda>u. referral_count u > 0) (users db))"
    by (auto simp: get_leaderboard_def Let_def split: if_splits dest: in_set_takeD)
  then show "0 < referral_count u" by simp
next
  show "sorted_wrt (\<lambda>a b. referral_count b < referral_count a
                     \<or> (referral_count a = referral_count b
                          \<and> total_earnings b \<le> total_earnings a))
        (get_leaderboard db limit)"
    unfolding get_leaderboard_def Let_def
    by (simp add: leaderboard_rows_sorted sorted_wrt_take)
qed

theorem get_leaderboard_bounded_sorted_witness:
  "(0::int) \<le> 1
   \<and> map user_id (get_leaderboard db_three 1) = [3]
   \<and> int (length (get_leaderboard db_three 1)) \<le> 1
   \<and> list_all (\<lambda>u. 0 < referral_count u) (get_leaderboard db_three 1)"
proof -
  have e: "map user_id (get_leaderboard db_three 1) = [3]"
    by (simp add: get_leaderboard_def db_three_def alice_def Let_def)
  from get_leaderboard_bounded_sorted [of 1 db_three] e show ?thesis
    by (simp add: list_all_iff)
qed

subsection \<open>C6: rendering an offer\<close>

text \<open>
  C6: for every offer, whatever the random draws and whether or not the gravity is present,
  \<open>generate_post\<close> raises nothing and returns a text that is not empty and contains the
  offer's title and its affiliate_link.
\<close>

theorem generate_post_total:
  "\<exists>post. generate_post fmt str_title r1 r2 r3 r4 offer = Inr post
      \<and> post \<noteq> []
      \<and> sublist (title offer) post
      \<and> sublist (affiliate_link offer) post"
proof -
  from generate_post_shape [of fmt str_title r1 r2 r3 r4 offer]
  obtain pre suf where
    eq: "\<And>g. generate_post fmt str_title r1 r2 r3 r4 (offer\<lparr>gravity := g\<rparr>)
            = Inr (pre @ (if truthy g
                          then emoji_fire @ '' **Popularity**: '' @ fmt 0 (the g) @ ''/100''
                                 @ [CHR 0x0A]
                          else []) @ suf)"
    and pre: "pre \<noteq> []" "sublist (title offer) pre"
    and suf: "sublist (affiliate_link offer) suf"
    by (elim exE conjE) simp
  let ?mid = "if truthy (gravity offer)
              then emoji_fire @ '' **Popularity**: '' @ fmt 0 (the (gravity offer)) @ ''/100''
                     @ [CHR 0x0A]
              else []"
  have "generate_post fmt str_title r1 r2 r3 r4 offer = Inr (pre @ ?mid @ suf)"
    using eq [of "gravity offer"] by simp
  moreover have "pre @ ?mid @ suf \<noteq> []"
    using pre by simp
  moreover have "sublist (title offer) (pre @ ?mid @ suf)"
    using pre(2) by (simp add: sublist_append)
  moreover have "sublist (affiliate_link offer) (pre @ ?mid @ suf)"
    using suf by (simp add: sublist_append)
  ultimately show ?thesis by blast
qed

theorem generate_post_total_witness:
  "\<exists>post. generate_post sample_fmt id 0 0 0 0 sample_offer = Inr post
      \<and> post \<noteq> []
      \<and> sublist ''AI Weekly Insider'' post
      \<and> sublist ''https://trendbot.link/sparkloop/1?ref=trendbot'' post"
  using generate_post_total [of sample_fmt id 0 0 0 0 sample_offer]
  by (simp add: sample_offer_def)

subsection \<open>C7: a stored user arrives again with a code\<close>

text \<open>
  C7: when the platform user is already stored, \<open>/start\<close> with any arguments (a claimed
  code included, also the user's own or the one used before) answers \<open>returning\<close>,
  adds no referral row and leaves the referral_code, referral_count and total_earnings of
  every user as they were.
\<close>

theorem start_command_existing_no_referral:
  assumes "get_user db uid = Some existing"
  shows "\<exists>db'. start_command db uid uname fname args tok now ts
                 = Inr (db', ''returning'', None)
           \<and> referrals db' = referrals db
           \<and> map referral_code (users db') = map referral_code (users db)
           \<and> map referral_count (users db') = map referral_count (users db)
           \<and> map total_earnings (users db') = map total_earnings (users db)"
  using start_command_returning [OF assms, of uname fname args tok now ts] by blast

theorem start_command_existing_no_referral_witness:
  "get_user db_alice_bob 2 = Some bob
   \<and> (\<exists>db'. start_command db_alice_bob 2 (Some ''bob'') (Some ''Bob'') [''LUXAB12CD34'']
                 ''ffffffff'' 7 8
               = Inr (db', ''returning'', None)
         \<and> referrals db' = []
         \<and> map referral_count (users db') = [0, 0]
         \<and> map total_earnings (users db') = [0, 0])"
proof -
  have h: "get_user db_alice_bob 2 = Some bob"
    by (simp add: sample_defs method_defs)
  have s: "referrals db_alice_bob = []" "map referral_count (users db_alice_bob) = [0, 0]"
       "map total_earnings (users db_alice_bob) = [0, 0]"
    by (simp_all add: sample_defs)
  from start_command_existing_no_referral
         [OF h, of "Some ''bob''" "Some ''Bob''" "[''LUXAB12CD34'']" "''ffffffff''" 7 8] h s
  show ?thesis by auto
qed

subsection \<open>C8: a new user with a code that belongs to nobody\<close>

text \<open>
  C8 as stated: a new platform user whose claimed code resolves to no user is onboarded
  with no referral row and no change of aggregates. The handler looks the claimed code up
  after it has inserted the new user, so a claimed code equal to the code just generated
  for that user resolves to the user itself: on the empty store the new user ends with one
  referral row naming itself, referral_count 1 and total_earnings 5.
\<close>

theorem start_command_own_code_counterexample:
  "get_user init_database 7 = None
   \<and> get_user_by_referral_code init_database ''LUX0A1B2C3D'' = None
   \<and> start_command init_database 7 (Some ''bob'') (Some ''Bob'') [''LUX0A1B2C3D'']
         ''0a1b2c3d'' 3 4
       = Inr (\<lparr>offers = [],
               users = [\<lparr>u_id = Some 1, user_id = 7, username = ''bob'', first_name = ''Bob'',
                         referral_code = ''LUX0A1B2C3D'', referred_by = Some ''LUX0A1B2C3D'',
                         referral_count = 1, total_earnings = 5, u_created_at = 4,
                         last_active = 4\<rparr>],
               referrals = [\<lparr>r_id = Some 1, referrer_code = ''LUX0A1B2C3D'',
                             referred_user_id = 7, reward_amount = 5, status = ''confirmed'',
                             r_created_at = 4, r_updated_at = 4\<rparr>],
               posts = []\<rparr>,
              ''new_with_referral'',
              Some \<lparr>u_id = Some 1, user_id = 7, username = ''bob'', first_name = ''Bob'',
                    referral_code = ''LUX0A1B2C3D'', referred_by = Some ''LUX0A1B2C3D'',
                    referral_count = 0, total_earnings = 0, u_created_at = 4,
                    last_active = 4\<rparr>)"
  by (simp add: sample_defs method_defs upper_sample double_add_0_5)

text \<open>
  C8 as the code has it: when the platform user is not stored, the claimed code resolves to
  no stored user, and the code generated for the new user is neither in use (the
  \<open>UNIQUE\<close> column would reject the INSERT) nor the claimed code itself, \<open>/start code\<close>
  succeeds, appends the new user's row with the generated code and aggregates (0, 0), and
  changes nothing else: no referral row, no other user row.
\<close>

theorem start_command_unknown_code_ignored:
  assumes "get_user db uid = None"
    and "get_user_by_referral_code db code = None"
    and "''LUX'' @ upper tok \<notin> set (map referral_code (users db))"
    and "code \<noteq> ''LUX'' @ upper tok"
  shows "start_command db uid uname fname (code # rest) tok now ts
           = Inr (db\<lparr>users := users db @
                    [\<lparr>u_id = Some (lastrowid (map u_id (users db))), user_id = uid,
                      username = or_empty uname, first_name = or_empty fname,
                      referral_code = ''LUX'' @ upper tok, referred_by = Some code,
                      referral_count = 0, total_earnings = 0, u_created_at = ts,
                      last_active = ts\<rparr>]\<rparr>,
                  if code = [] then ''new'' else ''new_with_referral'', None)"
  using assms by (rule start_command_unknown_code)

theorem start_command_unknown_code_ignored_witness:
  "get_user db_alice 2 = None
   \<and> get_user_by_referral_code db_alice ''LUXTYPO'' = None
   \<and> ''LUX0A1B2C3D'' \<notin> set (map referral_code (users db_alice))
   \<and> ''LUXTYPO'' \<noteq> ''LUX0A1B2C3D''
   \<and> start_command db_alice 2 (Some ''bob'') (Some ''Bob'') [''LUXTYPO''] ''0a1b2c3d'' 3 4
       = Inr (\<lparr>offers = [],
               users = [alice, bob\<lparr>referred_by := Some ''LUXTYPO''\<rparr>],
               referrals = [], posts = []\<rparr>, ''new_with_referral'', None)"
proof -
  have h1: "get_user db_alice 2 = None"
    by (simp add: sample_defs method_defs)
  have h2: "get_user_by_referral_code db_alice ''LUXTYPO'' = None"
    by (simp add: sample_defs method_defs)
  have h3: "''LUX'' @ upper ''0a1b2c3d'' \<notin> set (map referral_code (users db_alice))"
    by (simp add: sample_defs upper_sample)
  have h4: "''LUXTYPO'' \<noteq> ''LUX'' @ upper ''0a1b2c3d''"
    by (simp add: upper_sample)
  from start_command_unknown_code_ignored
         [OF h1 h2 h3 h4, of "Some ''bob''" "Some ''Bob''" "[]" 3 4] h1 h2 h3 h4
  show ?thesis
    by (simp add: upper_sample sample_defs or_empty_def lastrowid_def)
qed

subsection \<open>C10: gravity zero\<close>

text \<open>
  C10: an offer with gravity 0 is rendered exactly as the same offer with no gravity, with
  no popularity line, because \<open>if offer.gravity:\<close> tests truthiness; any other gravity
  puts the popularity line between the same prefix and suffix.
\<close>

theorem generate_post_zero_gravity:
  "\<exists>pre suf.
     generate_post fmt str_title r1 r2 r3 r4 (offer\<lparr>gravity := Some 0\<rparr>) = Inr (pre @ suf)
     \<and> generate_post fmt str_title r1 r2 r3 r4 (offer\<lparr>gravity := None\<rparr>) = Inr (pre @ suf)
     \<and> (\<forall>g. g \<noteq> 0 \<longrightarrow>
           generate_post fmt str_title r1 r2 r3 r4 (offer\<lparr>gravity := Some g\<rparr>)
             = Inr (pre @ emoji_fire @ '' **Popularity**: '' @ fmt 0 g @ ''/100''
                      @ [CHR 0x0A] @ suf))"
proof -
  from generate_post_shape [of fmt str_title r1 r2 r3 r4 offer]
  obtain pre suf where
    eq: "\<And>g. generate_post fmt str_title r1 r2 r3 r4 (offer\<lparr>gravity := g\<rparr>)
            = Inr (pre @ (if truthy g
                          then emoji_fire @ '' **Popularity**: '' @ fmt 0 (the g) @ ''/100''
                                 @ [CHR 0x0A]
                          else []) @ suf)"
    by (elim exE conjE) simp
  have "generate_post fmt str_title r1 r2 r3 r4 (offer\<lparr>gravity := Some 0\<rparr>) = Inr (pre @ suf)"
    by (simp add: eq truthy_def)
  moreover
  have "generate_post fmt str_title r1 r2 r3 r4 (offer\<lparr>gravity := None\<rparr>) = Inr (pre @ suf)"
    by (simp add: eq truthy_def)
  moreover
  have "generate_post fmt str_title r1 r2 r3 r4 (offer\<lparr>gravity := Some g\<rparr>)
             = Inr (pre @ emoji_fire @ '' **Popularity**: '' @ fmt 0 g @ ''/100''
                      @ [CHR 0x0A] @ suf)" if "g \<noteq> 0" for g
    using that by (simp add: eq truthy_def)
  ultimately show ?thesis by blast
qed

theorem generate_post_zero_gravity_witness:
  "generate_post sample_fmt id 0 0 0 0 (sample_offer\<lparr>gravity := Some 0\<rparr>)
     = generate_post sample_fmt id 0 0 0 0 (sample_offer\<lparr>gravity := None\<rparr>)
   \<and> (72::real) \<noteq> 0
   \<and> generate_post sample_fmt id 0 0 0 0 (sample_offer\<lparr>gravity := Some 72\<rparr>)
       \<noteq> generate_post sample_fmt id 0 0 0 0 (sample_offer\<lparr>gravity := None\<rparr>)"
proof -
  from generate_post_zero_gravity [of sample_fmt id 0 0 0 0 sample_offer]
  obtain pre suf where
    z: "generate_post sample_fmt id 0 0 0 0 (sample_offer\<lparr>gravity := Some 0\<rparr>) = Inr (pre @ suf)"
    and n: "generate_post sample_fmt id 0 0 0 0 (sample_offer\<lparr>gravity := None\<rparr>) = Inr (pre @ suf)"
    and g: "\<And>g. g \<noteq> 0 \<Longrightarrow>
           generate_post sample_fmt id 0 0 0 0 (sample_offer\<lparr>gravity := Some g\<rparr>)
             = Inr (pre @ emoji_fire @ '' **Popularity**: '' @ sample_fmt 0 g @ ''/100''
                      @ [CHR 0x0A] @ suf)"
    by (elim exE conjE) simp
  have "(72::real) \<noteq> 0" by simp
  from g [OF this] z n show ?thesis by simp
qed

end
